theory Spec2Isabelle
  imports Complex_Main "HOL-Library.AList" "HOL-Library.Log_Nat" "HOL-Library.Word"
begin

section \<open>View components of the desktop Git client\<close>

text \<open>
  The components are React classes. A render method is embedded as a function from the
  props and the state to the element tree it returns; an event handler as the list of its
  steps, given the props and the state, whose run is the list of outward calls the handler
  makes, in the order it makes them.
\<close>

subsection \<open>Shared vocabulary\<close>

text \<open>
  Errors a method can end with: \<open>assertNever\<close> throws, an awaited promise rejects, and
  reading a member of \<open>undefined\<close> throws a \<open>TypeError\<close>.
\<close>

datatype error = AssertNever string | Rejected string | TypeError string

text \<open>
  A JavaScript number is \<open>NaN\<close>, an infinity or a finite double, which is given by its
  value. Minus zero is not told apart from zero: \<open>-0 === 0\<close> holds, \<open>-0 > 0\<close> does not, and
  both are printed as \<open>0\<close>.
\<close>

datatype js_number = NaN | PosInfinity | NegInfinity | Finite rat

text \<open>For a positive \<open>x\<close>, the exponent \<open>e\<close> with \<open>2 ^ e \<le> x < 2 ^ (e + 1)\<close>.\<close>

definition floor_log2 :: "rat \<Rightarrow> int" where
  "floor_log2 x =
     (case quotient_of x of
        (p, q) \<Rightarrow>
          (let d = bitlen p - bitlen q
           in if 2 powi d \<le> x then d else d - 1))"

definition round_half_even :: "rat \<Rightarrow> int" where
  "round_half_even x =
     (let f = \<lfloor>x\<rfloor>; r = x - of_int f
      in if r < 1 / 2 then f else if 1 / 2 < r then f + 1 else if even f then f else f + 1)"

text \<open>
  Rounding an exact result to a double: to the nearest multiple of the unit in the last
  place (53 significant bits, the least exponent that of the subnormals), a tie to the
  even one, and to an infinity from \<open>2 ^ 1024\<close> on.
\<close>

definition round_double :: "rat \<Rightarrow> js_number" where
  "round_double x =
     (if x = 0 then Finite 0
      else
        (let q = max (floor_log2 \<bar>x\<bar> - 52) (- 1074);
             v = of_int (round_half_even (x / 2 powi q)) * 2 powi q
         in if 2 ^ 1024 \<le> v then PosInfinity
            else if v \<le> - (2 ^ 1024) then NegInfinity
            else Finite v))"

text \<open>The operator \<open>+\<close> on numbers.\<close>

fun js_add :: "js_number \<Rightarrow> js_number \<Rightarrow> js_number" where
  "js_add NaN y = NaN"
| "js_add x NaN = NaN"
| "js_add PosInfinity NegInfinity = NaN"
| "js_add NegInfinity PosInfinity = NaN"
| "js_add PosInfinity y = PosInfinity"
| "js_add x PosInfinity = PosInfinity"
| "js_add NegInfinity y = NegInfinity"
| "js_add x NegInfinity = NegInfinity"
| "js_add (Finite a) (Finite b) = round_double (a + b)"

text \<open>The tests \<open>x === 0\<close> and \<open>x > 0\<close>.\<close>

definition js_strict_eq_zero :: "js_number \<Rightarrow> bool" where
  "js_strict_eq_zero x = (x = Finite 0)"

definition js_gt_zero :: "js_number \<Rightarrow> bool" where
  "js_gt_zero x = (case x of Finite r \<Rightarrow> 0 < r | PosInfinity \<Rightarrow> True | NegInfinity \<Rightarrow> False | NaN \<Rightarrow> False)"

text \<open>What an awaited promise settles to.\<close>

datatype 'a settled = Fulfilled 'a | Rejection string

text \<open>
  Element trees. An element has the name of its tag or component, its props in source
  order and its children. \<open>'h\<close> is the type of the component's own event handlers.
\<close>

datatype 'h vnode =
    Text string
  | Num js_number
  | Element string "(string \<times> 'h attr) list" "'h vnode list"
and 'h attr =
    Str string
  | Flag bool
  | Handler 'h
  | Callback string
  | Icon string
  | Node "'h vnode"
  | Numeric js_number
  | Data "(string \<times> string) list"
  | Null
  | Undef

text \<open>\<open>&&\<close> in JSX: the element when the condition holds, nothing otherwise.\<close>

definition jsx_when :: "bool \<Rightarrow> 'a \<Rightarrow> 'a list" where
  "jsx_when c x = (if c then [x] else [])"

text \<open>
  A JSX spread followed by explicit props: a later prop replaces the value of an earlier one
  of the same name, in place, and a new name is added at the end.
\<close>

definition spread :: "(string \<times> 'h attr) list \<Rightarrow> (string \<times> 'h attr) list \<Rightarrow> (string \<times> 'h attr) list" where
  "spread base extra = fold (\<lambda>(k, v). AList.update k v) extra base"

text \<open>
  An asynchronous handler is a list of steps. \<open>Do\<close> makes a call and goes on; \<open>Await\<close>
  makes a call and waits for the promise it returns: the handler goes on when the promise
  is fulfilled, and ends with the rejection when it is rejected (no step of these handlers
  is inside a \<open>try\<close>). Running a handler gives how it ends and the calls it made, in
  order. A call made without \<open>await\<close> is taken to return.
\<close>

datatype 'e step = Do 'e | Await 'e

fun run :: "('e \<Rightarrow> unit settled) \<Rightarrow> 'e step list \<Rightarrow> (error + unit) \<times> 'e list" where
  "run env [] = (Inr (), [])"
| "run env (Do e # k) = (case run env k of (r, t) \<Rightarrow> (r, e # t))"
| "run env (Await e # k) =
     (case env e of
        Fulfilled u \<Rightarrow> (case run env k of (r, t) \<Rightarrow> (r, e # t))
      | Rejection m \<Rightarrow> (Inl (Rejected m), [e]))"

text \<open>\<open>a\<close> occurs in \<open>xs\<close> before the first \<open>b\<close> (or \<open>b\<close> does not occur at all).\<close>

definition precedes :: "'a \<Rightarrow> 'a \<Rightarrow> 'a list \<Rightarrow> bool" where
  "precedes a b xs = (a \<in> set (takeWhile (\<lambda>x. x \<noteq> b) xs))"

text \<open>Subtree search: is \<open>n\<close> the tree itself or one of its descendants (through children).\<close>

fun occurs_in :: "'h vnode \<Rightarrow> 'h vnode \<Rightarrow> bool" where
  "occurs_in n (Element tag ps cs) = (n = Element tag ps cs \<or> list_ex (occurs_in n) cs)"
| "occurs_in n t = (n = t)"

subsection \<open>lib/popover.tsx: the Popover\<close>

datatype PopoverAnchorPosition =
  Top | TopRight | TopLeft | Left | LeftTop | LeftBottom | Bottom | RightTop | Right

text \<open>The string each member of the enum is at run time.\<close>

fun anchor_position_value :: "PopoverAnchorPosition \<Rightarrow> string" where
  "anchor_position_value Top = ''top''"
| "anchor_position_value TopRight = ''top-right''"
| "anchor_position_value TopLeft = ''top-left''"
| "anchor_position_value Left = ''left''"
| "anchor_position_value LeftTop = ''left-top''"
| "anchor_position_value LeftBottom = ''left-bottom''"
| "anchor_position_value Bottom = ''bottom''"
| "anchor_position_value RightTop = ''right-top''"
| "anchor_position_value Right = ''right''"

text \<open>A callback prop is known by its name; calling it is an entry of the handler's trace.\<close>

type_synonym callback = string

record IPopoverProps =
  onClickOutside :: "callback option"
  onMousedownOutside :: "callback option"
  anchorPosition :: PopoverAnchorPosition

text \<open>
  \<open>getFloatingPlacementForAnchorPosition\<close>: a switch on the run-time value of the prop,
  whose default branch calls \<open>assertNever\<close>. The \<open>if (1 !== NaN)\<close> before it has an empty
  body (its only line is a comment) and does nothing.
\<close>

definition assertNever :: "string \<Rightarrow> error + 'a" where
  "assertNever message = Inl (AssertNever message)"

definition getFloatingPlacementForAnchorPosition :: "IPopoverProps \<Rightarrow> error + string" where
  "getFloatingPlacementForAnchorPosition props =
     (let v = anchor_position_value (anchorPosition props) in
      if v = anchor_position_value Top then Inr ''top''
      else if v = anchor_position_value TopLeft then Inr ''top-start''
      else if v = anchor_position_value TopRight then Inr ''top-end''
      else if v = anchor_position_value Left then Inr ''left''
      else if v = anchor_position_value LeftTop then Inr ''left-start''
      else if v = anchor_position_value LeftBottom then Inr ''left-end''
      else if v = anchor_position_value RightTop then Inr ''right-start''
      else if v = anchor_position_value Right then Inr ''right''
      else if v = anchor_position_value Bottom then Inr ''bottom''
      else assertNever ''Unknown anchor position'')"

text \<open>
  The document: a tree of nodes, each with an identity. \<open>Node.contains\<close> holds of a node
  itself and of its descendants.
\<close>

datatype dom_node = DomNode nat "dom_node list"

fun node_ids :: "dom_node \<Rightarrow> nat list" where
  "node_ids (DomNode i cs) = i # concat (map node_ids cs)"

definition contains :: "dom_node \<Rightarrow> nat \<Rightarrow> bool" where
  "contains n t = (t \<in> set (node_ids n))"

text \<open>
  An event's target is a node of the document, or something that is not a \<open>Node\<close>
  (\<open>null\<close>, the window).
\<close>

datatype EventTarget = TargetNode nat | TargetNotNode

record MouseEvent =
  target :: EventTarget

record HTMLDivElement =
  parentElement :: "dom_node option"

record Popover =
  this_props :: IPopoverProps
  containerDivRef :: "HTMLDivElement option"

datatype popover_call = Call callback MouseEvent

definition onDocumentClick :: "Popover \<Rightarrow> MouseEvent \<Rightarrow> popover_call list" where
  "onDocumentClick this event =
     (case containerDivRef this of
        None \<Rightarrow> []
      | Some ref \<Rightarrow>
          (case parentElement ref of
             None \<Rightarrow> []
           | Some parent \<Rightarrow>
               (case target event of
                  TargetNotNode \<Rightarrow> []
                | TargetNode t \<Rightarrow>
                    if \<not> contains parent t
                    then (case onClickOutside (this_props this) of
                            None \<Rightarrow> []
                          | Some f \<Rightarrow> [Call f event])
                    else [])))"

definition onDocumentMouseDown :: "Popover \<Rightarrow> MouseEvent \<Rightarrow> popover_call list" where
  "onDocumentMouseDown this event =
     (case containerDivRef this of
        None \<Rightarrow> []
      | Some ref \<Rightarrow>
          (case parentElement ref of
             None \<Rightarrow> []
           | Some parent \<Rightarrow>
               (case target event of
                  TargetNotNode \<Rightarrow> []
                | TargetNode t \<Rightarrow>
                    if \<not> contains parent t
                    then (case onMousedownOutside (this_props this) of
                            None \<Rightarrow> []
                          | Some f \<Rightarrow> [Call f event])
                    else [])))"

subsection \<open>The PushPullButton (second unit of changes/commit-message-avatar.tsx)\<close>

text \<open>
  Modelled from the spec: the declarations of \<open>IAheadBehind\<close>, \<open>TipState\<close>, \<open>FetchType\<close>,
  \<open>FoldoutType\<close>, \<open>Progress\<close> and \<open>Repository\<close>, which the component imports and which are
  not among the sources. The ahead/behind count is the number of commits a local branch
  differs by from its remote counterpart; a repository is the identifying data the
  dispatcher's methods take. Each type has the fields and members the component names;
  the last constructor of an enum stands for its other members. The counts are JavaScript
  numbers, and a date is the number of its time value.
\<close>

record IAheadBehind =
  ahead :: js_number
  behind :: js_number

datatype TipState = Unborn | Detached | OtherTipState

datatype FetchType = UserInitiatedTask | OtherFetchType

datatype FoldoutType = PushPull | OtherFoldout

record Progress =
  progress_title :: string
  progress_description :: "string option"
  progress_value :: js_number

record Repository =
  repository_id :: nat
  gitHubRepository :: "nat option"

record IPushPullButtonProps =
  aheadBehind :: "IAheadBehind option"
  remoteName :: "string option"
  networkActionInProgress :: bool
  lastFetched :: "nat option"
  progress :: "Progress option"
  repository :: Repository
  tipState :: TipState
  pullWithRebase :: "bool option"
  rebaseInProgress :: bool
  isForcePush :: bool
  shouldNudge :: bool
  numTagsToPush :: js_number
  isDropdownOpen :: bool

datatype DropdownItemType = Item_Fetch | Item_ForcePush

fun dropdown_item_value :: "DropdownItemType \<Rightarrow> string" where
  "dropdown_item_value Item_Fetch = ''fetch''"
| "dropdown_item_value Item_ForcePush = ''force-push''"

text \<open>The click handlers of the component, and the methods of the dispatcher they call.\<close>

datatype PushPullHandler = Push | ForcePushWithLease | Pull | Fetch

datatype dispatcher_call =
    CloseFoldout FoldoutType
  | DispatchPush Repository
  | ConfirmOrForcePush Repository
  | DispatchPull Repository
  | DispatchFetch Repository FetchType

definition closeDropdown :: "IPushPullButtonProps \<Rightarrow> dispatcher_call step list" where
  "closeDropdown props = [Do (CloseFoldout PushPull)]"

definition push :: "IPushPullButtonProps \<Rightarrow> dispatcher_call step list" where
  "push props = closeDropdown props @ [Do (DispatchPush (repository props))]"

definition forcePushWithLease :: "IPushPullButtonProps \<Rightarrow> dispatcher_call step list" where
  "forcePushWithLease props = closeDropdown props @ [Do (ConfirmOrForcePush (repository props))]"

definition pull :: "IPushPullButtonProps \<Rightarrow> dispatcher_call step list" where
  "pull props = closeDropdown props @ [Do (DispatchPull (repository props))]"

definition fetch :: "IPushPullButtonProps \<Rightarrow> dispatcher_call step list" where
  "fetch props = closeDropdown props @ [Do (DispatchFetch (repository props) UserInitiatedTask)]"

fun click :: "PushPullHandler \<Rightarrow> IPushPullButtonProps \<Rightarrow> dispatcher_call step list" where
  "click Push = push"
| "click ForcePushWithLease = forcePushWithLease"
| "click Pull = pull"
| "click Fetch = fetch"

text \<open>The repository a dispatcher call is given, if it is given one.\<close>

fun call_repository :: "dispatcher_call \<Rightarrow> Repository option" where
  "call_repository (CloseFoldout f) = None"
| "call_repository (DispatchPush r) = Some r"
| "call_repository (ConfirmOrForcePush r) = Some r"
| "call_repository (DispatchPull r) = Some r"
| "call_repository (DispatchFetch r t) = Some r"

definition octicon :: "string \<Rightarrow> 'h vnode" where
  "octicon symbol = Element ''Octicon'' [(''symbol'', Icon symbol)] []"

definition renderAheadBehind :: "IAheadBehind \<Rightarrow> js_number \<Rightarrow> 'h vnode option" where
  "renderAheadBehind = (\<lambda>aheadBehind numTagsToPush.
     (if js_strict_eq_zero (ahead aheadBehind) \<and> js_strict_eq_zero (behind aheadBehind)
         \<and> js_strict_eq_zero numTagsToPush then None
      else Some (Element ''div'' [(''className'', Str ''ahead-behind'')]
        (jsx_when (js_gt_zero (ahead aheadBehind) \<or> js_gt_zero numTagsToPush)
           (Element ''span'' [(''key'', Str ''ahead'')]
              [Num (js_add (ahead aheadBehind) numTagsToPush), octicon ''arrowUp''])
         @ jsx_when (js_gt_zero (behind aheadBehind))
           (Element ''span'' [(''key'', Str ''behind'')]
              [Num (behind aheadBehind), octicon ''arrowDown''])))))"

text \<open>
  Reading a badge. Its figures are the spans that hold a number followed by an arrow icon
  and nothing else: each is read as the key of the span, the number and the symbol of the
  icon, and the figures are listed in the order they are shown. A child of any other shape
  is listed as \<open>None\<close>.
\<close>

fun read_figure :: "'h vnode \<Rightarrow> (string \<times> js_number \<times> string) option" where
  "read_figure (Element tag ps [Num n, Element tag' ps' []]) =
     (if tag = ''span'' \<and> tag' = ''Octicon''
      then (case (ps, ps') of
              ([(k, Str key)], [(s, Icon symbol)]) \<Rightarrow>
                if k = ''key'' \<and> s = ''symbol'' then Some (key, n, symbol) else None
            | _ \<Rightarrow> None)
      else None)"
| "read_figure t = None"

fun badge_figures_of :: "'h vnode \<Rightarrow> (string \<times> js_number \<times> string) option list" where
  "badge_figures_of (Element tag ps cs) = map read_figure cs"
| "badge_figures_of t = []"

text \<open>The number shown with the arrow of the given symbol, if the badge shows that arrow.\<close>

fun arrow_figure :: "string \<Rightarrow> 'h vnode \<Rightarrow> js_number option" where
  "arrow_figure symbol b =
     (case filter (\<lambda>f. case f of Some (key, n, s) \<Rightarrow> s = symbol | None \<Rightarrow> False)
             (badge_figures_of b) of
        Some (key, n, s) # rest \<Rightarrow> Some n
      | _ \<Rightarrow> None)"

definition renderLastFetched :: "nat option \<Rightarrow> 'h vnode" where
  "renderLastFetched = (\<lambda>lastFetched.
     (case lastFetched of
        Some d \<Rightarrow> Element ''span'' []
          [Text ''Last fetched '', Element ''RelativeTime'' [(''date'', Numeric (Finite (of_nat d)))] []]
      | None \<Rightarrow> Text ''Never fetched''))"

definition defaultButtonProps :: "(string \<times> PushPullHandler attr) list" where
  "defaultButtonProps =
     [(''className'', Str ''push-pull-button''), (''style'', Str ''ToolbarButtonStyle.Subtitle'')]"

definition defaultDropdownProps ::
    "IPushPullButtonProps \<Rightarrow> (string \<times> PushPullHandler attr) list" where
  "defaultDropdownProps props =
     [(''buttonClassName'', Str ''push-pull-button''),
      (''style'', Str ''ToolbarButtonStyle.Subtitle''),
      (''dropdownStyle'', Str ''ToolbarDropdownStyle.MultiOption''),
      (''dropdownState'', Str (if isDropdownOpen props then ''open'' else ''closed'')),
      (''onDropdownStateChanged'', Callback ''onDropdownStateChanged'')]"

text \<open>A template literal prints \<open>null\<close> as the word.\<close>

definition template :: "string option \<Rightarrow> string" where
  "template v = (case v of None \<Rightarrow> ''null'' | Some s \<Rightarrow> s)"

record DropdownItem =
  item_title :: string
  item_description :: "PushPullHandler vnode"
  item_action :: PushPullHandler
  item_icon :: string

fun getDropdownItemWithType :: "IPushPullButtonProps \<Rightarrow> DropdownItemType \<Rightarrow> DropdownItem" where
  "getDropdownItemWithType props Item_Fetch =
     \<lparr>item_title = ''Fetch '' @ template (remoteName props),
      item_description = Text (''Fetch the latest changes from '' @ template (remoteName props)),
      item_action = Fetch,
      item_icon = ''syncClockwise''\<rparr>"
| "getDropdownItemWithType props Item_ForcePush =
     \<lparr>item_title = ''Force push '' @ template (remoteName props),
      item_description = Element ''Fragment'' []
        [Text ''Overwrite any changes on '', Text (template (remoteName props)),
         Text '' with your local changes'',
         Element ''br'' [] [], Element ''br'' [] [],
         Element ''div'' [(''className'', Str ''warning'')]
           [Element ''span'' [(''className'', Str ''warning-title'')] [Text ''Warning:''],
            Text ('' A force push will rewrite history on the remote. Any collaborators ''
              @ ''working on this branch will need to reset their own local branch to ''
              @ ''match the history of the remote.'')]],
      item_action = ForcePushWithLease,
      item_icon = ''forcePushIcon''\<rparr>"

definition renderDropdownItem :: "IPushPullButtonProps \<Rightarrow> DropdownItemType \<Rightarrow> PushPullHandler vnode" where
  "renderDropdownItem props type =
     (let item = getDropdownItemWithType props type in
      Element ''Button''
        [(''className'', Str ''push-pull-dropdown-item''),
         (''key'', Str (dropdown_item_value type)),
         (''onClick'', Handler (item_action item))]
        [octicon (item_icon item),
         Element ''div'' [(''className'', Str ''text-container'')]
           [Element ''div'' [(''className'', Str ''title'')] [Text (item_title item)],
            Element ''div'' [(''className'', Str ''detail'')] [item_description item]]])"

definition getDropdownContentRenderer ::
    "IPushPullButtonProps \<Rightarrow> DropdownItemType list \<Rightarrow> PushPullHandler vnode" where
  "getDropdownContentRenderer props itemTypes =
     Element ''div'' [(''className'', Str ''push-pull-dropdown-button'')]
       [Element ''div'' [(''className'', Str ''push-pull-dropdown'')]
          (map (renderDropdownItem props) itemTypes)]"

text \<open>A child that is \<open>null\<close> renders nothing.\<close>

definition jsx_child :: "'a option \<Rightarrow> 'a list" where
  "jsx_child c = (case c of None \<Rightarrow> [] | Some x \<Rightarrow> [x])"

text \<open>\<open>classNames\<close>: the names that are given, joined by spaces.\<close>

fun classNames :: "string option list \<Rightarrow> string" where
  "classNames [] = ''''"
| "classNames (None # rest) = classNames rest"
| "classNames (Some c # rest) =
     (if c = '''' then classNames rest
      else if classNames rest = '''' then c else c @ '' '' @ classNames rest)"

fun attr_string :: "'h attr option \<Rightarrow> string option" where
  "attr_string (Some (Str s)) = Some s"
| "attr_string a = None"

text \<open>The last character of the fallback description is U+2026, here in UTF-8.\<close>

definition hang_on :: string where
  "hang_on = ''Hang on'' @ [CHR 0xE2, CHR 0x80, CHR 0xA6]"

definition progressButton :: "Progress \<Rightarrow> bool \<Rightarrow> PushPullHandler vnode" where
  "progressButton = (\<lambda>progress networkActionInProgress.
     Element ''ToolbarButton''
       (spread defaultButtonProps
          [(''title'', Str (progress_title progress)),
           (''description'',
              Str (case progress_description progress of
                     None \<Rightarrow> hang_on
                   | Some d \<Rightarrow> if d = '''' then hang_on else d)),
           (''progressValue'', Numeric (progress_value progress)),
           (''icon'', Icon ''syncClockwise''),
           (''iconClassName'', Str (if networkActionInProgress then ''spin'' else '''')),
           (''tooltip'', (case progress_description progress of None \<Rightarrow> Undef | Some d \<Rightarrow> Str d)),
           (''disabled'', Flag True)])
       [])"

definition publishRepositoryButton :: "PushPullHandler \<Rightarrow> PushPullHandler vnode" where
  "publishRepositoryButton onClick =
     Element ''ToolbarButton''
       (spread defaultButtonProps
          [(''title'', Str ''Publish repository''),
           (''description'', Str ''Publish this repository to GitHub''),
           (''className'', Str ''push-pull-button''),
           (''icon'', Icon ''upload''),
           (''style'', Str ''ToolbarButtonStyle.Subtitle''),
           (''onClick'', Handler onClick)])
       []"

definition unbornRepositoryButton :: "PushPullHandler vnode" where
  "unbornRepositoryButton =
     Element ''ToolbarButton''
       (spread defaultButtonProps
          [(''title'', Str ''Publish branch''),
           (''description'', Str ''Cannot publish unborn HEAD''),
           (''icon'', Icon ''upload''),
           (''disabled'', Flag True)])
       []"

definition detachedHeadButton :: "bool \<Rightarrow> PushPullHandler vnode" where
  "detachedHeadButton = (\<lambda>rebaseInProgress.
     (let description =
            (if rebaseInProgress then ''Rebase in progress'' else ''Cannot publish detached HEAD'')
      in Element ''ToolbarButton''
           (spread defaultButtonProps
              [(''title'', Str ''Publish branch''),
               (''description'', Str description),
               (''icon'', Icon ''upload''),
               (''disabled'', Flag True)])
           []))"

definition publishBranchButton ::
    "IPushPullButtonProps \<Rightarrow> bool \<Rightarrow> PushPullHandler \<Rightarrow> bool \<Rightarrow> PushPullHandler vnode" where
  "publishBranchButton = (\<lambda>props isGitHub onClick shouldNudge.
     (let description =
            (if isGitHub then ''Publish this branch to GitHub''
             else ''Publish this branch to the remote'');
          className =
            classNames
              [attr_string (map_of (defaultDropdownProps props) ''className''),
               Some ''nudge-arrow'',
               (if shouldNudge then Some ''nudge-arrow-up'' else None)]
      in Element ''ToolbarDropdown''
           (spread (defaultDropdownProps props)
              [(''title'', Str ''Publish branch''),
               (''description'', Str description),
               (''icon'', Icon ''upload''),
               (''onClick'', Handler onClick),
               (''className'', Str className),
               (''dropdownContentRenderer'', Node (getDropdownContentRenderer props [Item_Fetch]))])
           []))"

definition fetchButton ::
    "string \<Rightarrow> IAheadBehind \<Rightarrow> js_number \<Rightarrow> nat option \<Rightarrow> PushPullHandler \<Rightarrow> PushPullHandler vnode" where
  "fetchButton = (\<lambda>remoteName aheadBehind numTagsToPush lastFetched onClick.
     (let title = ''Fetch '' @ remoteName
      in Element ''ToolbarButton''
           (spread defaultButtonProps
              [(''title'', Str title),
               (''description'', Node (renderLastFetched lastFetched)),
               (''icon'', Icon ''syncClockwise''),
               (''onClick'', Handler onClick)])
           []))"

definition pullButton ::
    "IPushPullButtonProps \<Rightarrow> string \<Rightarrow> IAheadBehind \<Rightarrow> js_number \<Rightarrow> nat option \<Rightarrow> bool
       \<Rightarrow> PushPullHandler \<Rightarrow> PushPullHandler vnode" where
  "pullButton = (\<lambda>props remoteName aheadBehind numTagsToPush lastFetched pullWithRebase onClick.
     (let title =
            (if pullWithRebase then ''Pull '' @ remoteName @ '' with rebase''
             else ''Pull '' @ remoteName)
      in Element ''ToolbarDropdown''
           (spread (defaultDropdownProps props)
              [(''title'', Str title),
               (''description'', Node (renderLastFetched lastFetched)),
               (''icon'', Icon ''arrowDown''),
               (''onClick'', Handler onClick),
               (''dropdownContentRenderer'',
                  Node (getDropdownContentRenderer props [Item_Fetch, Item_ForcePush]))])
           (jsx_child (renderAheadBehind aheadBehind numTagsToPush))))"

definition pushButton ::
    "IPushPullButtonProps \<Rightarrow> string \<Rightarrow> IAheadBehind \<Rightarrow> js_number \<Rightarrow> nat option
       \<Rightarrow> PushPullHandler \<Rightarrow> PushPullHandler vnode" where
  "pushButton = (\<lambda>props remoteName aheadBehind numTagsToPush lastFetched onClick.
     Element ''ToolbarDropdown''
       (spread (defaultDropdownProps props)
          [(''title'', Str (''Push '' @ remoteName)),
           (''description'', Node (renderLastFetched lastFetched)),
           (''icon'', Icon ''arrowUp''),
           (''onClick'', Handler onClick),
           (''dropdownContentRenderer'', Node (getDropdownContentRenderer props [Item_Fetch]))])
       (jsx_child (renderAheadBehind aheadBehind numTagsToPush)))"

definition forcePushButton ::
    "IPushPullButtonProps \<Rightarrow> string \<Rightarrow> IAheadBehind \<Rightarrow> js_number \<Rightarrow> nat option
       \<Rightarrow> PushPullHandler \<Rightarrow> PushPullHandler vnode" where
  "forcePushButton = (\<lambda>props remoteName aheadBehind numTagsToPush lastFetched onClick.
     Element ''ToolbarDropdown''
       (spread (defaultDropdownProps props)
          [(''title'', Str (''Force push '' @ remoteName)),
           (''description'', Node (renderLastFetched lastFetched)),
           (''icon'', Icon ''forcePushIcon''),
           (''onClick'', Handler onClick),
           (''dropdownContentRenderer'', Node (getDropdownContentRenderer props [Item_Fetch]))])
       (jsx_child (renderAheadBehind aheadBehind numTagsToPush)))"

definition renderButton :: "IPushPullButtonProps \<Rightarrow> PushPullHandler vnode" where
  "renderButton props =
     (case progress props of
        Some p \<Rightarrow> progressButton p (networkActionInProgress props)
      | None \<Rightarrow>
     (case remoteName props of
        None \<Rightarrow> publishRepositoryButton Push
      | Some remote \<Rightarrow>
     if tipState props = Unborn then unbornRepositoryButton
     else if tipState props = Detached then detachedHeadButton (rebaseInProgress props)
     else
     (case aheadBehind props of
        None \<Rightarrow>
          (let isGitHubRepository = (gitHubRepository (repository props) \<noteq> None)
           in publishBranchButton props isGitHubRepository Push (shouldNudge props))
      | Some ab \<Rightarrow>
     if js_strict_eq_zero (ahead ab) \<and> js_strict_eq_zero (behind ab)
        \<and> js_strict_eq_zero (numTagsToPush props)
     then fetchButton remote ab (numTagsToPush props) (lastFetched props) Fetch
     else if isForcePush props
     then forcePushButton props remote ab (numTagsToPush props) (lastFetched props)
            ForcePushWithLease
     else if js_gt_zero (behind ab)
     then pullButton props remote ab (numTagsToPush props) (lastFetched props)
            (case pullWithRebase props of None \<Rightarrow> False | Some b \<Rightarrow> b) Pull
     else pushButton props remote ab (numTagsToPush props) (lastFetched props) Push)))"

text \<open>Reading a rendered button: the value of one of its props.\<close>

fun prop_of :: "string \<Rightarrow> 'h vnode \<Rightarrow> 'h attr option" where
  "prop_of k (Element tag ps cs) = map_of ps k"
| "prop_of k t = None"


subsection \<open>The CommitMessageAvatar (first unit of changes/commit-message-avatar.tsx)\<close>

text \<open>
  Modelled from the spec: the declaration of \<open>IAvatarUser\<close> (the commit author whose avatar
  is shown), which the component imports and which is not among the sources. It has the
  two fields the component reads. A prop that may be left out is an option.
\<close>

record IAvatarUser =
  user_name :: string
  user_email :: string

datatype CommitMessageWarningType = WarningNone | Misattribution | DisallowedEmail

record ICommitMessageAvatarProps =
  user :: "IAvatarUser option"
  email :: "string option"
  warningType :: CommitMessageWarningType
  emailRuleErrors :: "string list option"
  isEnterpriseAccount :: bool
  accountEmails :: "string list"
  preferredAccountEmail :: string

record ICommitMessageAvatarState =
  isPopoverOpen :: bool
  accountEmail :: string

definition initial_state :: "ICommitMessageAvatarProps \<Rightarrow> ICommitMessageAvatarState" where
  "initial_state props = \<lparr>isPopoverOpen = False, accountEmail = preferredAccountEmail props\<rparr>"

text \<open>
  \<open>setState\<close> is given an updater or a partial state, which React applies to the state.
  The three the component uses, and what each does to the state it is applied to:
\<close>

datatype state_update = OpenPopoverUpdate | ClosePopoverUpdate | AccountEmailUpdate string

fun apply_update :: "state_update \<Rightarrow> ICommitMessageAvatarState \<Rightarrow> ICommitMessageAvatarState" where
  "apply_update OpenPopoverUpdate prevState =
     (if isPopoverOpen prevState = False then prevState\<lparr>isPopoverOpen := True\<rparr> else prevState)"
| "apply_update ClosePopoverUpdate prevState =
     (if isPopoverOpen prevState then prevState\<lparr>isPopoverOpen := False\<rparr> else prevState)"
| "apply_update (AccountEmailUpdate e) prevState = prevState\<lparr>accountEmail := e\<rparr>"

text \<open>What a handler of the component does: calls on the event, on React and on its props.\<close>

datatype avatar_call =
    PreventDefault
  | SetState state_update
  | OnUpdateEmail string
  | OnOpenRepositorySettings

text \<open>The state after a handler has run: its updates, applied in order.\<close>

fun state_after :: "ICommitMessageAvatarState \<Rightarrow> avatar_call list \<Rightarrow> ICommitMessageAvatarState" where
  "state_after s [] = s"
| "state_after s (SetState u # cs) = state_after (apply_update u s) cs"
| "state_after s (c # cs) = state_after s cs"

datatype AvatarHandler =
    OnAvatarClick
  | ClosePopover
  | OnSelectedGitHubEmailChange
  | OnRepositorySettingsClick
  | OnIgnoreClick
  | OnUpdateEmailClick

definition openPopover :: "avatar_call step list" where
  "openPopover = [Do (SetState OpenPopoverUpdate)]"

definition closePopover :: "avatar_call step list" where
  "closePopover = [Do (SetState ClosePopoverUpdate)]"

definition onAvatarClick ::
    "ICommitMessageAvatarProps \<Rightarrow> ICommitMessageAvatarState \<Rightarrow> avatar_call step list" where
  "onAvatarClick props state =
     (if warningType props = WarningNone then []
      else Do PreventDefault # (if isPopoverOpen state then closePopover else openPopover))"

definition onRepositorySettingsClick :: "avatar_call step list" where
  "onRepositorySettingsClick = closePopover @ [Do OnOpenRepositorySettings]"

definition onIgnoreClick :: "avatar_call step list" where
  "onIgnoreClick = Do PreventDefault # closePopover"

text \<open>
  \<open>onUpdateEmailClick\<close> is declared \<open>async\<close> and has no \<open>await\<close> in its body: every step is
  a \<open>Do\<close>.
\<close>

definition onUpdateEmailClick ::
    "ICommitMessageAvatarProps \<Rightarrow> ICommitMessageAvatarState \<Rightarrow> avatar_call step list" where
  "onUpdateEmailClick props state =
     Do PreventDefault # closePopover
     @ (if email props \<noteq> Some (accountEmail state)
        then [Do (OnUpdateEmail (accountEmail state))] else [])"

text \<open>The value of the select is the argument; an empty value is falsy.\<close>

definition onSelectedGitHubEmailChange :: "string \<Rightarrow> avatar_call step list" where
  "onSelectedGitHubEmailChange v = (if v \<noteq> '''' then [Do (SetState (AccountEmailUpdate v))] else [])"

fun is_onUpdateEmail :: "avatar_call \<Rightarrow> bool" where
  "is_onUpdateEmail (OnUpdateEmail e) = True"
| "is_onUpdateEmail c = False"

definition is_await :: "'e step \<Rightarrow> bool" where
  "is_await s = (case s of Await e \<Rightarrow> True | Do e \<Rightarrow> False)"

definition avatar :: "IAvatarUser option \<Rightarrow> AvatarHandler vnode" where
  "avatar u =
     Element ''Avatar''
       [(''user'', (case u of
                      None \<Rightarrow> Undef
                    | Some x \<Rightarrow> Data [(''name'', user_name x), (''email'', user_email x)])),
        (''title'', Null)]
       []"

definition getTitle :: "ICommitMessageAvatarProps \<Rightarrow> AvatarHandler vnode" where
  "getTitle props =
     (case user props of
        None \<Rightarrow> Text ''Unknown user''
      | Some u \<Rightarrow>
          if user_name u \<noteq> ''''
          then Element ''Fragment'' []
                 [Text ''Committing as '', Element ''strong'' [] [Text (user_name u)],
                  Text '' '', Text (user_email u)]
          else Text (user_email u))"

definition renderWarningBadge :: "AvatarHandler vnode" where
  "renderWarningBadge =
     Element ''div'' [(''className'', Str ''warning-badge'')] [octicon ''alert'']"

text \<open>\<open>Array.prototype.join\<close>.\<close>

fun join :: "string \<Rightarrow> string list \<Rightarrow> string" where
  "join sep [] = ''''"
| "join sep [x] = x"
| "join sep (x # y # rest) = x @ sep @ join sep (y # rest)"

text \<open>
  The component imports \<open>Popover\<close> and \<open>PopoverCaretPosition\<close> from \<open>../lib/popover\<close>, which
  is \<open>lib/popover.tsx\<close>. These are the names that file exports. An imported name the
  module does not export is \<open>undefined\<close>, and reading a member of it throws.
\<close>

definition popover_exports :: "string list" where
  "popover_exports =
     [''PopoverAnchorPosition'', ''PopoverTipPosition'', ''PopoverAppearEffect'', ''Popover'',
      ''DeleteRemoteBranch'']"

definition imported_member :: "string list \<Rightarrow> string \<Rightarrow> string \<Rightarrow> error + string" where
  "imported_member exports name member =
     (if name \<in> set exports then Inr (name @ ''.'' @ member)
      else Inl (TypeError (name @ '' is undefined'')))"

text \<open>
  \<open>darwin\<close> is the build constant \<open>__DARWIN__\<close>. The props of the \<open>Popover\<close> element are
  evaluated before its children, \<open>caretPosition\<close> first.
\<close>

definition renderPopover ::
    "bool \<Rightarrow> ICommitMessageAvatarProps \<Rightarrow> ICommitMessageAvatarState
       \<Rightarrow> error + AvatarHandler vnode" where
  "renderPopover darwin props state =
     (let accountTypeSuffix = (if isEnterpriseAccount props then '' Enterprise'' else '''');
          updateEmailTitle = (if darwin then ''Update Email'' else ''Update email'');
          userName =
            (case user props of
               None \<Rightarrow> ''''
             | Some u \<Rightarrow> if user_name u \<noteq> '''' then '' for '' @ user_name u else '''');
          header =
            (case warningType props of
               Misattribution \<Rightarrow> ''This commit will be misattributed''
             | DisallowedEmail \<Rightarrow> ''This email address may be disallowed''
             | WarningNone \<Rightarrow> '''');
          gitEmail =
            Element ''span'' [(''className'', Str ''git-email'')]
              (case email props of None \<Rightarrow> [] | Some e \<Rightarrow> [Text e])
      in case imported_member popover_exports ''PopoverCaretPosition'' ''LeftBottom'' of
           Inl e \<Rightarrow> Inl e
         | Inr caretPosition \<Rightarrow>
         Inr (Element ''Popover''
           [(''caretPosition'', Str caretPosition),
            (''onClickOutside'', Handler ClosePopover),
            (''ariaLabelledby'', Str ''commit-message-avatar-popover-header'')]
           ([Element ''h3'' [(''id'', Str ''commit-message-avatar-popover-header'')] [Text header]]
            @ jsx_when (warningType props = Misattribution)
                (Element ''Row'' []
                   [Element ''div'' []
                      [Text ''The email in your global Git config ('',
                       gitEmail,
                       Text '') doesn't match your GitHub'', Text accountTypeSuffix,
                       Text '' account'', Text userName, Text ''.'', Text '' '',
                       Element ''LinkButton''
                         [(''ariaLabel'', Str ''Learn more about commit attribution''),
                          (''uri'', Str (''https://docs.github.com/en/github/''
                             @ ''committing-changes-to-your-project/''
                             @ ''why-are-my-commits-linked-to-the-wrong-user''))]
                         [Text ''Learn more'']]])
            @ jsx_when (warningType props = DisallowedEmail)
                (Element ''Row'' []
                   [Element ''div'' []
                      ([Text ''The email in your global Git config ('',
                        gitEmail,
                        Text ('') may be blocked from pushing to this branch by one or ''
                          @ ''more rules: '')]
                       @ (case emailRuleErrors props of
                            None \<Rightarrow> []
                          | Some errs \<Rightarrow> [Text (join '', '' errs)]))])
            @ [Element ''Row'' []
                 [Element ''Select''
                    [(''label'', Str ''Your Account Emails''),
                     (''value'', Str (accountEmail state)),
                     (''onChange'', Handler OnSelectedGitHubEmailChange)]
                    (map (\<lambda>n. Element ''option'' [(''key'', Str n), (''value'', Str n)] [Text n])
                       (accountEmails props))],
               Element ''Row'' []
                 [Element ''div'' [(''className'', Str ''secondary-text'')]
                    [Text ''You can also choose an email local to this repository from the'',
                     Text '' '',
                     Element ''LinkButton'' [(''onClick'', Handler OnRepositorySettingsClick)]
                       [Text ''repository settings''],
                     Text ''.'']],
               Element ''Row'' [(''className'', Str ''button-row'')]
                 [Element ''Button''
                    [(''onClick'', Handler OnIgnoreClick), (''type'', Str ''button'')]
                    [Text ''Ignore''],
                  Element ''Button''
                    [(''onClick'', Handler OnUpdateEmailClick), (''type'', Str ''submit'')]
                    [Text updateEmailTitle]]])))"

text \<open>
  The children of the outer \<open>div\<close> are evaluated in order, the popover last, and only with
  the popover open: an error of \<open>renderPopover\<close> is then the error of \<open>render\<close>.
\<close>

definition render ::
    "bool \<Rightarrow> ICommitMessageAvatarProps \<Rightarrow> ICommitMessageAvatarState
       \<Rightarrow> error + AvatarHandler vnode" where
  "render darwin props state =
     (let ariaLabel =
            (case warningType props of
               WarningNone \<Rightarrow> ''Show Commit Author Details''
             | Misattribution \<Rightarrow> ''Commit may be misattributed. View warning.''
             | DisallowedEmail \<Rightarrow> ''Email address may be disallowed. View warning.'');
          avatars =
            jsx_when (warningType props \<noteq> WarningNone)
              (Element ''Button''
                 [(''className'', Str ''avatar-button''),
                  (''ariaLabel'', Str ariaLabel),
                  (''onClick'', Handler OnAvatarClick)]
                 [renderWarningBadge, avatar (user props)])
            @ jsx_when (warningType props = WarningNone)
              (Element ''ToggledtippedContent''
                 [(''tooltip'', Node (getTitle props)),
                  (''direction'', Str ''TooltipDirection.NORTH''),
                  (''ariaLabel'', Str ''Show Commit Author Details'')]
                 [avatar (user props)])
      in if isPopoverOpen state
         then (case renderPopover darwin props state of
                 Inl e \<Rightarrow> Inl e
               | Inr popover \<Rightarrow>
                   Inr (Element ''div'' [(''className'', Str ''commit-message-avatar-component'')]
                          (avatars @ [popover])))
         else Inr (Element ''div'' [(''className'', Str ''commit-message-avatar-component'')]
                     avatars))"

subsection \<open>The DeleteRemoteBranch dialog (second unit of lib/popover.tsx)\<close>

text \<open>
  Modelled from the spec: the declaration of \<open>Branch\<close> (the branch reference the
  dispatcher's method takes), which the dialog imports and which is not among the sources.
  It has the one field the dialog reads.
\<close>

record Branch =
  branch_name :: string

record IDeleteRemoteBranchProps =
  dialog_repository :: Repository
  branch :: Branch

record IDeleteRemoteBranchState =
  isDeleting :: bool

datatype dialog_call =
    SetIsDeleting bool
  | DeleteRemoteBranch Repository Branch
  | OnDeleted Repository
  | OnDismissed

definition deleteBranch :: "IDeleteRemoteBranchProps \<Rightarrow> dialog_call step list" where
  "deleteBranch props =
     [Do (SetIsDeleting True),
      Await (DeleteRemoteBranch (dialog_repository props) (branch props)),
      Do (OnDeleted (dialog_repository props)),
      Do OnDismissed]"

fun dialog_state_after :: "IDeleteRemoteBranchState \<Rightarrow> dialog_call list \<Rightarrow> IDeleteRemoteBranchState" where
  "dialog_state_after s [] = s"
| "dialog_state_after s (SetIsDeleting b # cs) = dialog_state_after (s\<lparr>isDeleting := b\<rparr>) cs"
| "dialog_state_after s (c # cs) = dialog_state_after s cs"

subsection \<open>pull-request-quick-view.tsx: the PullRequestQuickView\<close>

text \<open>
  The body of a pull request is tested with \<open>String.prototype.trim\<close>, which reads the
  characters of the string: here a string is the list of its UTF-16 code units. \<open>trim\<close>
  removes white space and line terminators from both ends.
\<close>

type_synonym js_string = "16 word list"

definition js :: "string \<Rightarrow> js_string" where
  "js s = map of_char s"

definition is_whitespace :: "16 word \<Rightarrow> bool" where
  "is_whitespace c =
     (c = 0x0009 \<or> c = 0x000A \<or> c = 0x000B \<or> c = 0x000C \<or> c = 0x000D \<or> c = 0x0020
      \<or> c = 0x00A0 \<or> c = 0x1680 \<or> (0x2000 \<le> c \<and> c \<le> 0x200A) \<or> c = 0x2028
      \<or> c = 0x2029 \<or> c = 0x202F \<or> c = 0x205F \<or> c = 0x3000 \<or> c = 0xFEFF)"

definition trim :: "js_string \<Rightarrow> js_string" where
  "trim s = rev (dropWhile is_whitespace (rev (dropWhile is_whitespace s)))"

datatype 'a js_value = Undefined | JsNull | Defined 'a

text \<open>
  Modelled from the spec: the declaration of \<open>PullRequest\<close>, which the component imports and
  which is not among the sources. It has the fields the component reads
  (\<open>base.gitHubRepository\<close> as one field). The emoji map, from a shortcut to the path of its
  image, is a list of pairs in insertion order.
\<close>

record PullRequest =
  title :: js_string
  pullRequestNumber :: nat
  base_gitHubRepository :: nat
  body :: "js_string js_value"

record IPullRequestQuickViewProps =
  pullRequest :: PullRequest
  emoji :: "(js_string \<times> js_string) list"

definition baseHref :: js_string where
  "baseHref = js ''https://github.com/''"

text \<open>
  What \<open>renderPR\<close> puts into the markup, which is otherwise fixed: the heading, the props
  of the badge and the props of the sandboxed markdown renderer.
\<close>

record PullRequestMarkup =
  heading :: js_string
  badge_number :: nat
  badge_repository :: nat
  markdown_prop :: js_string
  baseHref_prop :: js_string
  emoji_prop :: "(js_string \<times> js_string) list"

definition renderPR :: "IPullRequestQuickViewProps \<Rightarrow> PullRequestMarkup" where
  "renderPR props =
     (let pr = pullRequest props;
          displayBody =
            (case body pr of
               Defined b \<Rightarrow> if trim b \<noteq> [] then b else js ''_No description provided._''
             | Undefined \<Rightarrow> js ''_No description provided._''
             | JsNull \<Rightarrow> js ''_No description provided._'')
      in \<lparr>heading = title pr,
          badge_number = pullRequestNumber pr,
          badge_repository = base_gitHubRepository pr,
          markdown_prop = displayBody,
          baseHref_prop = baseHref,
          emoji_prop = emoji props\<rparr>)"

section \<open>Properties\<close>

subsection \<open>The Popover\<close>

text \<open>
  C6. The mapping from the anchor position to the positioning library's placement is
  total: each of the nine members of \<open>PopoverAnchorPosition\<close> gets its placement
  (Top to top, TopLeft to top-start, TopRight to top-end, Left to left, LeftTop to
  left-start, LeftBottom to left-end, RightTop to right-start, Right to right, Bottom to
  bottom), and the \<open>assertNever\<close> branch is never taken.
\<close>

theorem placement_total:
  "getFloatingPlacementForAnchorPosition props =
     Inr (case anchorPosition props of
            Top \<Rightarrow> ''top'' | TopLeft \<Rightarrow> ''top-start'' | TopRight \<Rightarrow> ''top-end''
          | Left \<Rightarrow> ''left'' | LeftTop \<Rightarrow> ''left-start'' | LeftBottom \<Rightarrow> ''left-end''
          | RightTop \<Rightarrow> ''right-start'' | Right \<Rightarrow> ''right'' | Bottom \<Rightarrow> ''bottom'')
   \<and> getFloatingPlacementForAnchorPosition props \<noteq> assertNever ''Unknown anchor position''"
  by (cases "anchorPosition props")
     (simp_all add: getFloatingPlacementForAnchorPosition_def assertNever_def)

text \<open>
  C7. The Popover is dismissed on outside interaction. With the container mounted under a
  parent element, a document click whose target is a node outside that parent calls
  \<open>onClickOutside\<close> (with the event) when the prop is given, and a click whose target is
  inside the parent calls nothing.
\<close>

theorem click_outside_dismisses:
  assumes "containerDivRef this = Some ref"
    and "parentElement ref = Some parent"
    and "target event = TargetNode t"
  shows "(\<not> contains parent t \<longrightarrow>
            (\<forall>f. onClickOutside (this_props this) = Some f \<longrightarrow>
                 onDocumentClick this event = [Call f event]))
       \<and> (contains parent t \<longrightarrow> onDocumentClick this event = [])"
  using assms by (simp add: onDocumentClick_def)

theorem click_outside_dismisses_witness:
  "onDocumentClick
     \<lparr>this_props = \<lparr>onClickOutside = Some ''closePopover'', onMousedownOutside = None,
               anchorPosition = LeftBottom\<rparr>,
      containerDivRef = Some \<lparr>parentElement = Some (DomNode 1 [DomNode 2 [], DomNode 3 []])\<rparr>\<rparr>
     \<lparr>target = TargetNode 7\<rparr>
   = [Call ''closePopover'' \<lparr>target = TargetNode 7\<rparr>]
   \<and> onDocumentClick
     \<lparr>this_props = \<lparr>onClickOutside = Some ''closePopover'', onMousedownOutside = None,
               anchorPosition = LeftBottom\<rparr>,
      containerDivRef = Some \<lparr>parentElement = Some (DomNode 1 [DomNode 2 [], DomNode 3 []])\<rparr>\<rparr>
     \<lparr>target = TargetNode 3\<rparr>
   = []"
  using
    click_outside_dismisses [of
      "\<lparr>this_props = \<lparr>onClickOutside = Some ''closePopover'', onMousedownOutside = None,
                anchorPosition = LeftBottom\<rparr>,
        containerDivRef = Some \<lparr>parentElement = Some (DomNode 1 [DomNode 2 [], DomNode 3 []])\<rparr>\<rparr>"
      "\<lparr>parentElement = Some (DomNode 1 [DomNode 2 [], DomNode 3 []])\<rparr>"
      "DomNode 1 [DomNode 2 [], DomNode 3 []]"
      "\<lparr>target = TargetNode 7\<rparr>" 7]
    click_outside_dismisses [of
      "\<lparr>this_props = \<lparr>onClickOutside = Some ''closePopover'', onMousedownOutside = None,
                anchorPosition = LeftBottom\<rparr>,
        containerDivRef = Some \<lparr>parentElement = Some (DomNode 1 [DomNode 2 [], DomNode 3 []])\<rparr>\<rparr>"
      "\<lparr>parentElement = Some (DomNode 1 [DomNode 2 [], DomNode 3 []])\<rparr>"
      "DomNode 1 [DomNode 2 [], DomNode 3 []]"
      "\<lparr>target = TargetNode 3\<rparr>" 3]
  by (simp add: contains_def)

subsection \<open>The PushPullButton\<close>

lemma round_half_even_int: "round_half_even (of_int j) = j"
  by (simp add: round_half_even_def)

lemma floor_log2_int_le:
  assumes "0 < n" "n < 2 ^ 53"
  shows "floor_log2 (of_int n) \<le> 52"
proof -
  have "nat n < 2 ^ 53" using assms by (simp add: nat_less_iff)
  then have "floorlog 2 (nat n) \<le> 53" by (intro floorlog_leI) simp_all
  then have "bitlen n \<le> 53" by (simp add: bitlen_def)
  moreover have "bitlen 1 = 1" by (simp add: bitlen_def floorlog_def)
  ultimately show ?thesis
    by (simp add: floor_log2_def Let_def)
qed

text \<open>An integer below \<open>2 ^ 53\<close> in magnitude is a double: rounding leaves it as it is.\<close>

lemma round_double_safe:
  assumes "\<bar>n\<bar> < 2 ^ 53"
  shows "round_double (of_int n) = Finite (of_int n)"
proof (cases "n = 0")
  case True
  then show ?thesis by (simp add: round_double_def)
next
  case False
  define q where "q = max (floor_log2 \<bar>of_int n :: rat\<bar> - 52) (- 1074)"
  have "\<bar>of_int n :: rat\<bar> = of_int \<bar>n\<bar>" by simp
  moreover have "floor_log2 (of_int \<bar>n\<bar>) \<le> 52"
    using False assms by (intro floor_log2_int_le) simp_all
  ultimately have q: "q \<le> 0" "- 1074 \<le> q" by (simp_all add: q_def)
  define k where "k = nat (- q)"
  have pw: "(2::rat) powi q = inverse 2 ^ k"
    using q by (simp add: power_int_def k_def)
  have scaled: "(of_int n :: rat) / 2 powi q = of_int (n * 2 ^ k)"
    by (simp add: pw power_inverse field_simps)
  have unscaled: "(of_int (n * 2 ^ k) :: rat) * 2 powi q = of_int n"
    by (simp add: pw power_inverse field_simps)
  have small: "\<bar>of_int n :: rat\<bar> < 2 ^ 1024"
  proof -
    have "(of_int \<bar>n\<bar> :: rat) < of_int (2 ^ 53)" using assms by (simp only: of_int_less_iff)
    also have "\<dots> < 2 ^ 1024" by simp
    finally show ?thesis by simp
  qed
  have "round_double (of_int n) =
        (let v = of_int (round_half_even (of_int n / 2 powi q)) * 2 powi q
         in if 2 ^ 1024 \<le> v then PosInfinity
            else if v \<le> - (2 ^ 1024) then NegInfinity else Finite v)"
    using False by (simp add: round_double_def q_def Let_def)
  also have "\<dots> = Finite (of_int n)"
    unfolding scaled round_half_even_int unscaled Let_def using small by auto
  finally show ?thesis .
qed

lemma js_add_safe:
  "\<bar>a + t\<bar> < 2 ^ 53 \<Longrightarrow> js_add (Finite (of_int a)) (Finite (of_int t)) = Finite (of_int (a + t))"
  using round_double_safe [of "a + t"] by simp

text \<open>
  C2, as the code has it. The badge is absent exactly when the ahead count, the behind
  count and the number of tags to push are all \<open>=== 0\<close>. A badge shows, in this order and
  nothing else: with the up arrow, in the span \<open>ahead\<close>, the sum of the ahead count and the
  number of tags to push, when either is greater than zero; with the down arrow, in the
  span \<open>behind\<close>, the behind count, when it is greater than zero. The sum is the sum of
  JavaScript, which is the exact sum when both are integers and the exact sum is below
  \<open>2 ^ 53\<close> in magnitude.
\<close>

theorem badge_figures:
  "((renderAheadBehind ab n :: 'h vnode option) = None)
     = (js_strict_eq_zero (ahead ab) \<and> js_strict_eq_zero (behind ab) \<and> js_strict_eq_zero n)
   \<and> (\<forall>b :: 'h vnode. renderAheadBehind ab n = Some b \<longrightarrow>
         badge_figures_of b =
           (if js_gt_zero (ahead ab) \<or> js_gt_zero n
            then [Some (''ahead'', js_add (ahead ab) n, ''arrowUp'')] else [])
           @ (if js_gt_zero (behind ab) then [Some (''behind'', behind ab, ''arrowDown'')] else [])
       \<and> arrow_figure ''arrowUp'' b =
           (if js_gt_zero (ahead ab) \<or> js_gt_zero n then Some (js_add (ahead ab) n) else None)
       \<and> arrow_figure ''arrowDown'' b =
           (if js_gt_zero (behind ab) then Some (behind ab) else None))
   \<and> (\<forall>a t. ahead ab = Finite (of_int a) \<and> n = Finite (of_int t) \<and> \<bar>a + t\<bar> < 2 ^ 53 \<longrightarrow>
         js_add (ahead ab) n = Finite (of_int (a + t)))"
proof -
  have absent: "((renderAheadBehind ab n :: 'h vnode option) = None)
     = (js_strict_eq_zero (ahead ab) \<and> js_strict_eq_zero (behind ab) \<and> js_strict_eq_zero n)"
    by (simp add: renderAheadBehind_def)
  have shown: "\<forall>b :: 'h vnode. renderAheadBehind ab n = Some b \<longrightarrow>
         badge_figures_of b =
           (if js_gt_zero (ahead ab) \<or> js_gt_zero n
            then [Some (''ahead'', js_add (ahead ab) n, ''arrowUp'')] else [])
           @ (if js_gt_zero (behind ab) then [Some (''behind'', behind ab, ''arrowDown'')] else [])
       \<and> arrow_figure ''arrowUp'' b =
           (if js_gt_zero (ahead ab) \<or> js_gt_zero n then Some (js_add (ahead ab) n) else None)
       \<and> arrow_figure ''arrowDown'' b =
           (if js_gt_zero (behind ab) then Some (behind ab) else None)"
    by (auto simp add: renderAheadBehind_def jsx_when_def octicon_def)
  have exact: "\<forall>a t. ahead ab = Finite (of_int a) \<and> n = Finite (of_int t) \<and> \<bar>a + t\<bar> < 2 ^ 53 \<longrightarrow>
         js_add (ahead ab) n = Finite (of_int (a + t))"
  proof (intro allI impI)
    fix a t
    assume h: "ahead ab = Finite (of_int a) \<and> n = Finite (of_int t) \<and> \<bar>a + t\<bar> < 2 ^ 53"
    from h have e1: "ahead ab = Finite (of_int a)" by blast
    from h have e2: "n = Finite (of_int t)" by blast
    from h have bound: "\<bar>a + t\<bar> < 2 ^ 53" by blast
    show "js_add (ahead ab) n = Finite (of_int (a + t))"
      unfolding e1 e2 by (rule js_add_safe [OF bound])
  qed
  from absent shown exact show ?thesis by blast
qed

theorem badge_figures_witness:
  "(renderAheadBehind \<lparr>ahead = Finite 1, behind = Finite 4\<rparr> (Finite 2)
      :: PushPullHandler vnode option) =
     Some (Element ''div'' [(''className'', Str ''ahead-behind'')]
            [Element ''span'' [(''key'', Str ''ahead'')] [Num (Finite 3), octicon ''arrowUp''],
             Element ''span'' [(''key'', Str ''behind'')] [Num (Finite 4), octicon ''arrowDown'']])
   \<and> arrow_figure ''arrowUp''
        (Element ''div'' [(''className'', Str ''ahead-behind'')]
           [Element ''span'' [(''key'', Str ''ahead'')] [Num (Finite 3), octicon ''arrowUp''],
            Element ''span'' [(''key'', Str ''behind'')]
              [Num (Finite 4), octicon ''arrowDown'' :: PushPullHandler vnode]]) = Some (Finite 3)
   \<and> arrow_figure ''arrowDown''
        (Element ''div'' [(''className'', Str ''ahead-behind'')]
           [Element ''span'' [(''key'', Str ''ahead'')] [Num (Finite 3), octicon ''arrowUp''],
            Element ''span'' [(''key'', Str ''behind'')]
              [Num (Finite 4), octicon ''arrowDown'' :: PushPullHandler vnode]]) = Some (Finite 4)"
proof -
  have sum: "js_add (Finite 1) (Finite 2) = Finite 3"
    using js_add_safe [of 1 2] by simp
  have rendered: "(renderAheadBehind \<lparr>ahead = Finite 1, behind = Finite 4\<rparr> (Finite 2)
      :: PushPullHandler vnode option) =
     Some (Element ''div'' [(''className'', Str ''ahead-behind'')]
            [Element ''span'' [(''key'', Str ''ahead'')] [Num (Finite 3), octicon ''arrowUp''],
             Element ''span'' [(''key'', Str ''behind'')] [Num (Finite 4), octicon ''arrowDown'']])"
    by (simp add: renderAheadBehind_def jsx_when_def js_strict_eq_zero_def js_gt_zero_def
          del: js_add.simps add: sum)
  from badge_figures [of "\<lparr>ahead = Finite 1, behind = Finite 4\<rparr>" "Finite 2",
      where ?'h = PushPullHandler] rendered sum
  show ?thesis by (simp add: js_gt_zero_def del: js_add.simps)
qed

text \<open>
  C2, as the specification has it, fails: with nothing ahead, nothing behind and two tags
  to push a badge is rendered, and its up-arrow figure is 2 where the ahead count is 0.
\<close>

theorem badge_counts_tags_counterexample:
  "(renderAheadBehind \<lparr>ahead = Finite 0, behind = Finite 0\<rparr> (Finite 2)
      :: PushPullHandler vnode option) \<noteq> None
   \<and> map_option (arrow_figure ''arrowUp'')
        (renderAheadBehind \<lparr>ahead = Finite 0, behind = Finite 0\<rparr> (Finite 2)
           :: PushPullHandler vnode option)
       = Some (Some (Finite 2))"
proof -
  have sum: "js_add (Finite 0) (Finite 2) = Finite 2"
    using js_add_safe [of 0 2] by simp
  show ?thesis
    by (simp add: renderAheadBehind_def jsx_when_def octicon_def js_strict_eq_zero_def
          js_gt_zero_def del: js_add.simps add: sum)
qed

text \<open>
  C4. Each click handler of the button (push, pull, fetch, force push with lease) closes
  the push-pull foldout and then calls exactly one method of the dispatcher, with the
  current repository.
\<close>

theorem click_closes_then_dispatches:
  "run env (click h props) =
     (Inr (), [CloseFoldout PushPull,
               (case h of
                  Push \<Rightarrow> DispatchPush (repository props)
                | ForcePushWithLease \<Rightarrow> ConfirmOrForcePush (repository props)
                | Pull \<Rightarrow> DispatchPull (repository props)
                | Fetch \<Rightarrow> DispatchFetch (repository props) UserInitiatedTask)])
   \<and> map call_repository (snd (run env (click h props))) = [None, Some (repository props)]"
  by (cases h)
     (simp_all add: push_def pull_def fetch_def forcePushWithLease_def closeDropdown_def)

text \<open>
  C9. Force push takes precedence over pull. With no progress, a remote name, a tip that
  is neither unborn nor detached, an ahead/behind value, and the ahead count, the behind
  count and the tags to push not all zero, \<open>isForcePush\<close> makes \<open>renderButton\<close> return the
  force-push button, whatever the behind count.
\<close>

theorem force_push_before_pull:
  assumes "progress props = None"
    and "remoteName props = Some remote"
    and "tipState props \<noteq> Unborn" and "tipState props \<noteq> Detached"
    and "aheadBehind props = Some ab"
    and "\<not> (js_strict_eq_zero (ahead ab) \<and> js_strict_eq_zero (behind ab)
             \<and> js_strict_eq_zero (numTagsToPush props))"
    and "isForcePush props"
  shows "renderButton props =
           forcePushButton props remote ab (numTagsToPush props) (lastFetched props)
             ForcePushWithLease
       \<and> prop_of ''title'' (renderButton props) = Some (Str (''Force push '' @ remote))
       \<and> prop_of ''icon'' (renderButton props) = Some (Icon ''forcePushIcon'')
       \<and> prop_of ''onClick'' (renderButton props) = Some (Handler ForcePushWithLease)"
proof -
  have r: "renderButton props =
           forcePushButton props remote ab (numTagsToPush props) (lastFetched props)
             ForcePushWithLease"
    using assms by (auto simp add: renderButton_def)
  show ?thesis unfolding r
    by (simp add: forcePushButton_def spread_def defaultDropdownProps_def)
qed

theorem force_push_before_pull_witness:
  "js_gt_zero (behind \<lparr>ahead = Finite 2, behind = Finite 3\<rparr>)
   \<and> prop_of ''title''
        (renderButton
           \<lparr>aheadBehind = Some \<lparr>ahead = Finite 2, behind = Finite 3\<rparr>, remoteName = Some ''origin'',
            networkActionInProgress = False, lastFetched = None, progress = None,
            repository = \<lparr>repository_id = 1, gitHubRepository = Some 7\<rparr>,
            tipState = OtherTipState, pullWithRebase = None, rebaseInProgress = False,
            isForcePush = True, shouldNudge = False, numTagsToPush = Finite 0,
            isDropdownOpen = False\<rparr>)
       = Some (Str ''Force push origin'')
   \<and> prop_of ''onClick''
        (renderButton
           \<lparr>aheadBehind = Some \<lparr>ahead = Finite 2, behind = Finite 3\<rparr>, remoteName = Some ''origin'',
            networkActionInProgress = False, lastFetched = None, progress = None,
            repository = \<lparr>repository_id = 1, gitHubRepository = Some 7\<rparr>,
            tipState = OtherTipState, pullWithRebase = None, rebaseInProgress = False,
            isForcePush = True, shouldNudge = False, numTagsToPush = Finite 0,
            isDropdownOpen = False\<rparr>)
       = Some (Handler ForcePushWithLease)"
  using force_push_before_pull [of
      "\<lparr>aheadBehind = Some \<lparr>ahead = Finite 2, behind = Finite 3\<rparr>, remoteName = Some ''origin'',
        networkActionInProgress = False, lastFetched = None, progress = None,
        repository = \<lparr>repository_id = 1, gitHubRepository = Some 7\<rparr>,
        tipState = OtherTipState, pullWithRebase = None, rebaseInProgress = False,
        isForcePush = True, shouldNudge = False, numTagsToPush = Finite 0,
        isDropdownOpen = False\<rparr>"
      "''origin''" "\<lparr>ahead = Finite 2, behind = Finite 3\<rparr>", THEN conjunct2]
  by (simp add: js_strict_eq_zero_def js_gt_zero_def)

subsection \<open>The CommitMessageAvatar\<close>

text \<open>
  C1, as the code has it. The Update Email handler awaits nothing. In every run it
  prevents the default, then asks for the popover to be closed, and then, when the
  selected email differs from the configured one, calls \<open>onUpdateEmail\<close> with the selected
  email, once and without awaiting it; it makes no other call. So whenever it calls
  \<open>onUpdateEmail\<close>, the request to close comes before the call, not after it.
\<close>

theorem update_email_close_precedes_call:
  "\<not> list_ex is_await (onUpdateEmailClick props state)
   \<and> snd (run env (onUpdateEmailClick props state)) =
       PreventDefault # SetState ClosePopoverUpdate
       # (if email props \<noteq> Some (accountEmail state)
          then [OnUpdateEmail (accountEmail state)] else [])
   \<and> SetState ClosePopoverUpdate \<in> set (snd (run env (onUpdateEmailClick props state)))
   \<and> (\<forall>e. OnUpdateEmail e \<in> set (snd (run env (onUpdateEmailClick props state))) \<longrightarrow>
          precedes (SetState ClosePopoverUpdate) (OnUpdateEmail e)
            (snd (run env (onUpdateEmailClick props state)))
        \<and> \<not> precedes (OnUpdateEmail e) (SetState ClosePopoverUpdate)
            (snd (run env (onUpdateEmailClick props state))))"
  by (simp add: onUpdateEmailClick_def closePopover_def precedes_def is_await_def)

theorem update_email_close_precedes_call_witness:
  "OnUpdateEmail ''octocat@github.com'' \<in> set (snd (run (\<lambda>c. Fulfilled ())
        (onUpdateEmailClick
           \<lparr>user = None, email = Some ''old@example.com'', warningType = Misattribution,
            emailRuleErrors = None, isEnterpriseAccount = False,
            accountEmails = [''octocat@github.com''],
            preferredAccountEmail = ''octocat@github.com''\<rparr>
           \<lparr>isPopoverOpen = True, accountEmail = ''octocat@github.com''\<rparr>)))
   \<and> precedes (SetState ClosePopoverUpdate) (OnUpdateEmail ''octocat@github.com'')
       (snd (run (\<lambda>c. Fulfilled ())
        (onUpdateEmailClick
           \<lparr>user = None, email = Some ''old@example.com'', warningType = Misattribution,
            emailRuleErrors = None, isEnterpriseAccount = False,
            accountEmails = [''octocat@github.com''],
            preferredAccountEmail = ''octocat@github.com''\<rparr>
           \<lparr>isPopoverOpen = True, accountEmail = ''octocat@github.com''\<rparr>)))"
proof -
  have called: "OnUpdateEmail ''octocat@github.com'' \<in> set (snd (run (\<lambda>c. Fulfilled ())
        (onUpdateEmailClick
           \<lparr>user = None, email = Some ''old@example.com'', warningType = Misattribution,
            emailRuleErrors = None, isEnterpriseAccount = False,
            accountEmails = [''octocat@github.com''],
            preferredAccountEmail = ''octocat@github.com''\<rparr>
           \<lparr>isPopoverOpen = True, accountEmail = ''octocat@github.com''\<rparr>)))"
    by (simp add: onUpdateEmailClick_def closePopover_def)
  with update_email_close_precedes_call [of
      "\<lparr>user = None, email = Some ''old@example.com'', warningType = Misattribution,
        emailRuleErrors = None, isEnterpriseAccount = False,
        accountEmails = [''octocat@github.com''],
        preferredAccountEmail = ''octocat@github.com''\<rparr>"
      "\<lparr>isPopoverOpen = True, accountEmail = ''octocat@github.com''\<rparr>"
      "\<lambda>c. Fulfilled ()"]
  show ?thesis by blast
qed

text \<open>
  C1, as the specification has it, fails: with a configured email that differs from the
  selected one, the handler has no \<open>await\<close>, and the request to close the popover is made
  before \<open>onUpdateEmail\<close> is called, so it cannot come after that call has settled.
\<close>

theorem update_email_awaits_counterexample:
  "precedes (SetState ClosePopoverUpdate) (OnUpdateEmail ''octocat@github.com'')
     (snd (run (\<lambda>c. Fulfilled ())
        (onUpdateEmailClick
           \<lparr>user = None, email = Some ''old@example.com'', warningType = Misattribution,
            emailRuleErrors = None, isEnterpriseAccount = False,
            accountEmails = [''octocat@github.com''],
            preferredAccountEmail = ''octocat@github.com''\<rparr>
           \<lparr>isPopoverOpen = True, accountEmail = ''octocat@github.com''\<rparr>)))
   \<and> \<not> precedes (OnUpdateEmail ''octocat@github.com'') (SetState ClosePopoverUpdate)
     (snd (run (\<lambda>c. Fulfilled ())
        (onUpdateEmailClick
           \<lparr>user = None, email = Some ''old@example.com'', warningType = Misattribution,
            emailRuleErrors = None, isEnterpriseAccount = False,
            accountEmails = [''octocat@github.com''],
            preferredAccountEmail = ''octocat@github.com''\<rparr>
           \<lparr>isPopoverOpen = True, accountEmail = ''octocat@github.com''\<rparr>)))
   \<and> \<not> list_ex is_await
        (onUpdateEmailClick
           \<lparr>user = None, email = Some ''old@example.com'', warningType = Misattribution,
            emailRuleErrors = None, isEnterpriseAccount = False,
            accountEmails = [''octocat@github.com''],
            preferredAccountEmail = ''octocat@github.com''\<rparr>
           \<lparr>isPopoverOpen = True, accountEmail = ''octocat@github.com''\<rparr>)"
  by (simp add: onUpdateEmailClick_def closePopover_def precedes_def is_await_def)

text \<open>
  While the popover is closed, the avatar with the warning type \<open>misattribution\<close> renders
  the warning badge: the button that holds the alert icon.
\<close>

lemma misattribution_badge_while_closed:
  assumes "warningType props = Misattribution" and "\<not> isPopoverOpen state"
  shows "\<exists>tree. render darwin props state = Inr tree
           \<and> occurs_in
                (Element ''Button''
                   [(''className'', Str ''avatar-button''),
                    (''ariaLabel'', Str ''Commit may be misattributed. View warning.''),
                    (''onClick'', Handler OnAvatarClick)]
                   [Element ''div'' [(''className'', Str ''warning-badge'')] [octicon ''alert''],
                    avatar (user props)])
                tree"
  using assms by (simp add: render_def renderWarningBadge_def jsx_when_def Let_def)

text \<open>
  \<open>renderPopover\<close> never returns a tree: \<open>PopoverCaretPosition\<close> is not among the exports of
  \<open>lib/popover.tsx\<close>, so reading \<open>PopoverCaretPosition.LeftBottom\<close> throws. With the popover
  open, \<open>render\<close> ends with the same error.
\<close>

lemma renderPopover_throws:
  "renderPopover darwin props state = Inl (TypeError ''PopoverCaretPosition is undefined'')"
  by (simp add: renderPopover_def imported_member_def popover_exports_def Let_def)

lemma render_open_throws:
  "isPopoverOpen state \<Longrightarrow>
     render darwin props state = Inl (TypeError ''PopoverCaretPosition is undefined'')"
  by (simp add: render_def renderPopover_throws Let_def)

text \<open>
  C5. With the warning type \<open>misattribution\<close>, the avatar is to render the warning badge
  and, with the popover open, the header "This commit will be misattributed". The code
  does not: with that warning type and the popover open, \<open>render\<close> throws a \<open>TypeError\<close>
  and returns no tree, so neither the badge nor the header is rendered.
\<close>

theorem misattribution_open_popover_throws:
  "render False
     \<lparr>user = None, email = Some ''old@example.com'', warningType = Misattribution,
      emailRuleErrors = None, isEnterpriseAccount = False,
      accountEmails = [''octocat@github.com''],
      preferredAccountEmail = ''octocat@github.com''\<rparr>
     \<lparr>isPopoverOpen = True, accountEmail = ''octocat@github.com''\<rparr>
   = Inl (TypeError ''PopoverCaretPosition is undefined'')"
  by (simp add: render_def renderPopover_def imported_member_def popover_exports_def Let_def)

text \<open>
  C10. The Update Email handler suppresses updates that change nothing. It always closes
  the popover; it calls \<open>onUpdateEmail\<close>, once and with the selected account email, when
  that email differs from the configured \<open>props.email\<close>, and does not call it when the two
  are equal.
\<close>

theorem update_email_suppresses_noop:
  "isPopoverOpen (state_after state (snd (run env (onUpdateEmailClick props state)))) = False
   \<and> SetState ClosePopoverUpdate \<in> set (snd (run env (onUpdateEmailClick props state)))
   \<and> (email props \<noteq> Some (accountEmail state) \<longrightarrow>
        filter is_onUpdateEmail (snd (run env (onUpdateEmailClick props state)))
          = [OnUpdateEmail (accountEmail state)])
   \<and> (email props = Some (accountEmail state) \<longrightarrow>
        filter is_onUpdateEmail (snd (run env (onUpdateEmailClick props state))) = [])"
  by (simp add: onUpdateEmailClick_def closePopover_def)

theorem update_email_suppresses_noop_witness:
  "filter is_onUpdateEmail (snd (run (\<lambda>c. Fulfilled ())
      (onUpdateEmailClick
         \<lparr>user = None, email = Some ''old@example.com'', warningType = Misattribution,
          emailRuleErrors = None, isEnterpriseAccount = False,
          accountEmails = [''octocat@github.com''],
          preferredAccountEmail = ''octocat@github.com''\<rparr>
         \<lparr>isPopoverOpen = True, accountEmail = ''octocat@github.com''\<rparr>)))
     = [OnUpdateEmail ''octocat@github.com'']
   \<and> filter is_onUpdateEmail (snd (run (\<lambda>c. Fulfilled ())
      (onUpdateEmailClick
         \<lparr>user = None, email = Some ''octocat@github.com'', warningType = Misattribution,
          emailRuleErrors = None, isEnterpriseAccount = False,
          accountEmails = [''octocat@github.com''],
          preferredAccountEmail = ''octocat@github.com''\<rparr>
         \<lparr>isPopoverOpen = True, accountEmail = ''octocat@github.com''\<rparr>)))
     = []"
  using
    update_email_suppresses_noop [of
      "\<lparr>isPopoverOpen = True, accountEmail = ''octocat@github.com''\<rparr>"
      "\<lambda>c. Fulfilled ()"
      "\<lparr>user = None, email = Some ''old@example.com'', warningType = Misattribution,
        emailRuleErrors = None, isEnterpriseAccount = False,
        accountEmails = [''octocat@github.com''],
        preferredAccountEmail = ''octocat@github.com''\<rparr>"]
    update_email_suppresses_noop [of
      "\<lparr>isPopoverOpen = True, accountEmail = ''octocat@github.com''\<rparr>"
      "\<lambda>c. Fulfilled ()"
      "\<lparr>user = None, email = Some ''octocat@github.com'', warningType = Misattribution,
        emailRuleErrors = None, isEnterpriseAccount = False,
        accountEmails = [''octocat@github.com''],
        preferredAccountEmail = ''octocat@github.com''\<rparr>"]
  by simp

subsection \<open>The DeleteRemoteBranch dialog\<close>

text \<open>
  C3. The dialog has no catch and no retry, and assumes success. Its submit handler sets
  \<open>isDeleting\<close> to true and awaits the dispatcher's \<open>deleteRemoteBranch\<close>, which it calls
  once; when that call succeeds it calls \<open>onDeleted\<close> with the repository and then
  \<open>onDismissed\<close>, and ends. A rejection is not caught: the handler ends with it, having
  called neither. \<open>isDeleting\<close> is true afterwards in both cases.
\<close>

theorem delete_branch_runs:
  "run env (deleteBranch props) =
     (case env (DeleteRemoteBranch (dialog_repository props) (branch props)) of
        Fulfilled u \<Rightarrow>
          (Inr (),
           [SetIsDeleting True,
            DeleteRemoteBranch (dialog_repository props) (branch props),
            OnDeleted (dialog_repository props),
            OnDismissed])
      | Rejection m \<Rightarrow>
          (Inl (Rejected m),
           [SetIsDeleting True, DeleteRemoteBranch (dialog_repository props) (branch props)]))
   \<and> isDeleting (dialog_state_after s (snd (run env (deleteBranch props))))"
  by (simp add: deleteBranch_def split: settled.split)

theorem delete_branch_runs_witness:
  "run (\<lambda>c. Fulfilled ())
     (deleteBranch
        \<lparr>dialog_repository = \<lparr>repository_id = 1, gitHubRepository = Some 7\<rparr>,
         branch = \<lparr>branch_name = ''origin/feature''\<rparr>\<rparr>)
   = (Inr (),
      [SetIsDeleting True,
       DeleteRemoteBranch \<lparr>repository_id = 1, gitHubRepository = Some 7\<rparr>
         \<lparr>branch_name = ''origin/feature''\<rparr>,
       OnDeleted \<lparr>repository_id = 1, gitHubRepository = Some 7\<rparr>,
       OnDismissed])
   \<and> run (\<lambda>c. Rejection ''remote refused'')
     (deleteBranch
        \<lparr>dialog_repository = \<lparr>repository_id = 1, gitHubRepository = Some 7\<rparr>,
         branch = \<lparr>branch_name = ''origin/feature''\<rparr>\<rparr>)
   = (Inl (Rejected ''remote refused''),
      [SetIsDeleting True,
       DeleteRemoteBranch \<lparr>repository_id = 1, gitHubRepository = Some 7\<rparr>
         \<lparr>branch_name = ''origin/feature''\<rparr>])"
  using
    delete_branch_runs [of "\<lambda>c. Fulfilled ()"
      "\<lparr>dialog_repository = \<lparr>repository_id = 1, gitHubRepository = Some 7\<rparr>,
        branch = \<lparr>branch_name = ''origin/feature''\<rparr>\<rparr>"]
    delete_branch_runs [of "\<lambda>c. Rejection ''remote refused''"
      "\<lparr>dialog_repository = \<lparr>repository_id = 1, gitHubRepository = Some 7\<rparr>,
        branch = \<lparr>branch_name = ''origin/feature''\<rparr>\<rparr>"]
  by simp

subsection \<open>The PullRequestQuickView\<close>

lemma dropWhile_rev_empty: "(dropWhile P (rev ys) = []) = (\<forall>x \<in> set ys. P x)"
  by (simp add: dropWhile_eq_Nil_conv)

lemma dropWhile_rest_all: "(\<forall>x \<in> set (dropWhile P s). P x) = (\<forall>x \<in> set s. P x)"
proof
  assume rest: "\<forall>x \<in> set (dropWhile P s). P x"
  have "dropWhile P s = []"
  proof (cases "dropWhile P s")
    case Nil
    then show ?thesis .
  next
    case (Cons a as)
    then have "\<not> P a" using hd_dropWhile [of P s] by simp
    moreover have "P a" using rest Cons by simp
    ultimately show ?thesis by simp
  qed
  then show "\<forall>x \<in> set s. P x" by (simp add: dropWhile_eq_Nil_conv)
next
  assume "\<forall>x \<in> set s. P x"
  then show "\<forall>x \<in> set (dropWhile P s). P x"
    using set_dropWhileD by fastforce
qed

text \<open>A string trims to the empty string exactly when all its characters are white space.\<close>

lemma trim_empty_iff: "(trim s = []) = list_all is_whitespace s"
  unfolding trim_def rev_is_Nil_conv dropWhile_rev_empty dropWhile_rest_all list_all_iff ..

text \<open>
  C8. The markdown handed to the sandboxed renderer is the body of the pull request when
  the body is defined, not null and not made of white space only, and the text
  "_No description provided._" otherwise; the base link prefix handed over with it is
  always "https://github.com/".
\<close>

theorem markdown_is_body_or_fallback:
  "markdown_prop (renderPR props) =
     (case body (pullRequest props) of
        Defined b \<Rightarrow> if list_all is_whitespace b then js ''_No description provided._'' else b
      | Undefined \<Rightarrow> js ''_No description provided._''
      | JsNull \<Rightarrow> js ''_No description provided._'')
   \<and> baseHref_prop (renderPR props) = js ''https://github.com/''"
  by (simp add: renderPR_def Let_def trim_empty_iff baseHref_def split: js_value.split)

theorem markdown_is_body_or_fallback_witness:
  "markdown_prop (renderPR
     \<lparr>pullRequest = \<lparr>title = js ''Fix typo'', pullRequestNumber = 12,
                      base_gitHubRepository = 7, body = Defined (js '' Fixes #3 '')\<rparr>,
      emoji = []\<rparr>) = js '' Fixes #3 ''
   \<and> markdown_prop (renderPR
     \<lparr>pullRequest = \<lparr>title = js ''Fix typo'', pullRequestNumber = 12,
                      base_gitHubRepository = 7, body = Defined [0x20, 0x0A, 0x2003]\<rparr>,
      emoji = []\<rparr>) = js ''_No description provided._''"
  using
    markdown_is_body_or_fallback [of
      "\<lparr>pullRequest = \<lparr>title = js ''Fix typo'', pullRequestNumber = 12,
                       base_gitHubRepository = 7, body = Defined (js '' Fixes #3 '')\<rparr>,
        emoji = []\<rparr>"]
    markdown_is_body_or_fallback [of
      "\<lparr>pullRequest = \<lparr>title = js ''Fix typo'', pullRequestNumber = 12,
                       base_gitHubRepository = 7, body = Defined [0x20, 0x0A, 0x2003]\<rparr>,
        emoji = []\<rparr>"]
  by (simp add: js_def is_whitespace_def)

end
